theory Spec2Isabelle
  imports Main
begin

section \<open>The word game of the Home component\<close>

text \<open>
  The game lives in one React component, \<^verbatim>\<open>Home\<close>: its \<^verbatim>\<open>useState\<close> cells are the
  session state, its event handlers (\<^verbatim>\<open>onGuess\<close>, \<^verbatim>\<open>handlePowerUp\<close>, \<^verbatim>\<open>startGame\<close>, the
  Reset button) are the transitions, and one \<^verbatim>\<open>useEffect\<close> applies an activated power-up.

  The embedding is explicit state passing. A handler is a function \<open>game \<Rightarrow> game\<close> that
  applies the handler's \<^verbatim>\<open>setX\<close> calls in program order: React queues the updates of one
  handler and applies them in that order before the next render, so a plain
  \<^verbatim>\<open>setX(v)\<close> overwrites what an earlier \<^verbatim>\<open>setX(f)\<close> of the same handler produced, and a
  value read from the closure (\<^verbatim>\<open>score\<close>, \<^verbatim>\<open>lives\<close>, \<^verbatim>\<open>guessed\<close>) is the value of the
  render the handler was created in, not the pending one.

  The page is modelled for a visitor who is not signed in (\<^verbatim>\<open>session\<close> is null), so
  \<^verbatim>\<open>loadAchievements\<close>, \<^verbatim>\<open>saveAchievement\<close> and \<^verbatim>\<open>saveScore\<close> return at once and
  change no cell. One event is handled and rendered before the next one arrives.

  JavaScript numbers are modelled as \<open>int\<close> (every number of the game is an integer far
  below \<open>2^53\<close>), strings as \<open>string\<close> with one \<open>char\<close> per code unit below 256, the
  \<^verbatim>\<open>guessed\<close> object as an association list in insertion order.
\<close>

subsection \<open>Data\<close>

datatype mode = Solo | Multi

datatype phase = Setup | Play | Finished

datatype status = Correct | Wrong

datatype outcome = Win | Lose

datatype powerup = DoublePoints | RevealLetter | ExtraLife

datatype source = Global | Countries

text \<open>The keys of the \<^verbatim>\<open>ACHIEVEMENTS\<close> table, in the order of the table.\<close>

datatype achievement =
    FirstWin | PerfectGame | Streak5 | Streak10
  | PerfectStreak3 | PerfectStreak5 | PerfectStreak10
  | HighScore | MegaScore | Speedster | PowerMaster
  | Wordsmith | Scholar | MultiplierMania | Detective
  | Survivor | Comeback

text \<open>
  The state cells of \<^verbatim>\<open>Home\<close>, under their names. The last five fields are not cells but what
  the React runtime keeps beside them:
  \<^item> \<open>revealedRef\<close>: the identity of the \<^verbatim>\<open>revealed\<close> array. Every \<^verbatim>\<open>setRevealed\<close> of the
    source passes a fresh array, and dependency arrays compare by identity
    (\<^verbatim>\<open>Object.is\<close>), so each \<^verbatim>\<open>setRevealed\<close> bumps the counter;
  \<^item> \<open>timerArmed\<close>: whether the 30 second timeout of the double-points branch is pending;
  \<^item> \<open>capPowerUpsUsed\<close>, \<open>capDoublePointsUsed\<close>, \<open>capRevealLetterUsed\<close>: the three
    usage counters as the memoised \<^verbatim>\<open>onGuess\<close> sees them. \<^verbatim>\<open>onGuess\<close> calls
    \<^verbatim>\<open>checkAchievements\<close>, which is not among its dependencies, so it keeps the
    \<^verbatim>\<open>checkAchievements\<close> of the render in which \<^verbatim>\<open>onGuess\<close> was last re-created. The
    other values that closure reads (\<^verbatim>\<open>score\<close>, \<^verbatim>\<open>streak\<close>, \<^verbatim>\<open>perfectStreak\<close>,
    \<^verbatim>\<open>wordsCompleted\<close>, \<^verbatim>\<open>achievements\<close>) change only in handlers that also change a
    dependency of \<^verbatim>\<open>onGuess\<close>, so there the closure and the state agree.
\<close>

record game =
  mode :: mode
  soloName :: string
  players :: "string list"
  nameInput :: string
  phase :: phase
  currentIdx :: nat
  word :: string
  displayRaw :: string
  meaning :: string
  revealed :: "bool list"
  guessed :: "(char \<times> status) list"
  winner :: "string option"
  result :: "outcome option"
  error :: "string option"
  source :: source
  powerUp :: "powerup option"
  lives :: int
  score :: int
  streak :: int
  scoreMultiplier :: int
  perfectStreak :: int
  achievements :: "achievement list"
  showAchievement :: "achievement option"
  powerUpsUsed :: int
  wordsCompleted :: int
  doublePointsUsed :: int
  revealLetterUsed :: int
  availablePowerUps :: "powerup list"
  revealedRef :: nat
  timerArmed :: bool
  capPowerUpsUsed :: int
  capDoublePointsUsed :: int
  capRevealLetterUsed :: int

text \<open>The argument object of \<^verbatim>\<open>checkAchievements\<close>.\<close>

record gameData =
  won :: bool
  perfect :: bool
  finalScore :: int
  livesRemaining :: int

definition MAX_LIVES :: int where
  "MAX_LIVES = 6"

definition POOL :: "powerup list" where
  "POOL = [DoublePoints, RevealLetter, ExtraLife]"

text \<open>The initial values of the \<^verbatim>\<open>useState\<close> calls.\<close>

definition init :: game where
  "init = \<lparr> mode = Solo, soloName = [], players = [], nameInput = [], phase = Setup,
     currentIdx = 0, word = [], displayRaw = [], meaning = [], revealed = [],
     guessed = [], winner = None, result = None, error = None, source = Global,
     powerUp = None, lives = MAX_LIVES, score = 0, streak = 0, scoreMultiplier = 1,
     perfectStreak = 0, achievements = [], showAchievement = None, powerUpsUsed = 0,
     wordsCompleted = 0, doublePointsUsed = 0, revealLetterUsed = 0,
     availablePowerUps = [], revealedRef = 0, timerArmed = False,
     capPowerUpsUsed = 0, capDoublePointsUsed = 0, capRevealLetterUsed = 0 \<rparr>"

subsection \<open>Strings\<close>

text \<open>
  \<^verbatim>\<open>toLowerCase\<close> on one code unit below 256: the ASCII capitals and the Latin-1 capitals
  (\<open>0xC0\<close> to \<open>0xDE\<close> without the multiplication sign) move up by 32.
\<close>

definition toLowerCase :: "char \<Rightarrow> char" where
  "toLowerCase c =
     (let n = (of_char c :: nat)
      in if (65 \<le> n \<and> n \<le> 90) \<or> (192 \<le> n \<and> n \<le> 222 \<and> n \<noteq> 215)
         then char_of (n + 32) else c)"

text \<open>\<^verbatim>\<open>trim\<close>: the white space and line terminators below 256.\<close>

definition isSpace :: "char \<Rightarrow> bool" where
  "isSpace c = ((of_char c :: nat) \<in> {9, 10, 11, 12, 13, 32, 160})"

definition trim :: "string \<Rightarrow> string" where
  "trim s = rev (dropWhile isSpace (rev (dropWhile isSpace s)))"

text \<open>The decimal digits of a number, for the template string \<^verbatim>\<open>`Player ${currentIdx + 1}`\<close>.\<close>

fun digits :: "nat \<Rightarrow> string" where
  "digits n =
     (if n < 10 then [char_of (48 + n)]
      else digits (n div 10) @ [char_of (48 + n mod 10)])"

declare digits.simps [simp del]

subsection \<open>Achievements\<close>

text \<open>
  \<^verbatim>\<open>checkAchievements(gameData)\<close>. The first argument \<open>c\<close> is the render the callback
  closes over: it reads \<^verbatim>\<open>streak\<close>, \<^verbatim>\<open>perfectStreak\<close>, \<^verbatim>\<open>achievements\<close>, \<^verbatim>\<open>lives\<close>,
  \<^verbatim>\<open>wordsCompleted\<close> and the three usage counters from there, the counters as \<^verbatim>\<open>onGuess\<close>
  captured them. The pushes of the source, in their order; there is none for
  \<^verbatim>\<open>comeback\<close>.
\<close>

definition newAchievements :: "gameData \<Rightarrow> game \<Rightarrow> achievement list" where
  "newAchievements gd c =
     (if streak c = 0 \<and> won gd \<and> FirstWin \<notin> set (achievements c) then [FirstWin] else []) @
     (if perfect gd \<and> PerfectGame \<notin> set (achievements c) then [PerfectGame] else []) @
     (if won gd then
        (if streak c + 1 \<ge> 5 \<and> Streak5 \<notin> set (achievements c) then [Streak5] else []) @
        (if streak c + 1 \<ge> 10 \<and> Streak10 \<notin> set (achievements c) then [Streak10] else []) @
        (if perfect gd then
           (if perfectStreak c + 1 \<ge> 3 \<and> PerfectStreak3 \<notin> set (achievements c)
            then [PerfectStreak3] else []) @
           (if perfectStreak c + 1 \<ge> 5 \<and> PerfectStreak5 \<notin> set (achievements c)
            then [PerfectStreak5] else []) @
           (if perfectStreak c + 1 \<ge> 10 \<and> PerfectStreak10 \<notin> set (achievements c)
            then [PerfectStreak10] else [])
         else [])
      else []) @
     (if finalScore gd \<ge> 500 \<and> HighScore \<notin> set (achievements c) then [HighScore] else []) @
     (if finalScore gd \<ge> 1000 \<and> MegaScore \<notin> set (achievements c) then [MegaScore] else []) @
     (if won gd \<and> lives c = MAX_LIVES \<and> Speedster \<notin> set (achievements c)
      then [Speedster] else []) @
     (if won gd \<and> lives c = 1 \<and> Survivor \<notin> set (achievements c) then [Survivor] else []) @
     (if capPowerUpsUsed c \<ge> 10 \<and> PowerMaster \<notin> set (achievements c)
      then [PowerMaster] else []) @
     (if won gd then
        (let newWordCount = wordsCompleted c + 1
         in (if newWordCount \<ge> 25 \<and> Wordsmith \<notin> set (achievements c) then [Wordsmith] else []) @
            (if newWordCount \<ge> 100 \<and> Scholar \<notin> set (achievements c) then [Scholar] else []))
      else []) @
     (if capDoublePointsUsed c \<ge> 5 \<and> MultiplierMania \<notin> set (achievements c)
      then [MultiplierMania] else []) @
     (if capRevealLetterUsed c \<ge> 10 \<and> Detective \<notin> set (achievements c)
      then [Detective] else [])"

text \<open>
  The state updates at the end of \<^verbatim>\<open>checkAchievements\<close>, applied to the pending state
  \<open>s\<close>: all new ids are appended, the first one is shown. (\<^verbatim>\<open>saveAchievement\<close> is a
  network call of the signed-in session and changes no cell.)
\<close>

definition checkAchievements :: "gameData \<Rightarrow> game \<Rightarrow> game \<Rightarrow> game" where
  "checkAchievements gd c s =
     (let new = newAchievements gd c
      in if new \<noteq> []
         then s\<lparr> achievements := achievements s @ new, showAchievement := Some (hd new) \<rparr>
         else s)"

subsection \<open>Guessing\<close>

text \<open>The loop that collects \<^verbatim>\<open>matchIdx\<close>, and the \<^verbatim>\<open>forEach\<close> that marks those positions.\<close>

definition matchIdx :: "string \<Rightarrow> char \<Rightarrow> nat list" where
  "matchIdx w ch = filter (\<lambda>i. w ! i = ch) [0..<length w]"

text \<open>
  \<^verbatim>\<open>newRev[i] = true\<close> is a list update. Every index of \<^verbatim>\<open>matchIdx\<close> is below the
  length of \<^verbatim>\<open>word\<close>, and \<^verbatim>\<open>revealed\<close> has that length in every reachable state (lemma
  \<open>reachable_inv\<close> below), so the write is in range there. Out of range JavaScript
  would grow the array with holes, which a \<open>bool list\<close> does not represent: statements
  about the mask are made for reachable states.
\<close>

definition markRevealed :: "nat list \<Rightarrow> bool list \<Rightarrow> bool list" where
  "markRevealed idx r = foldl (\<lambda>a i. a[i := True]) r idx"

text \<open>\<^verbatim>\<open>newRev.every(Boolean)\<close>.\<close>

definition everyBoolean :: "bool list \<Rightarrow> bool" where
  "everyBoolean r = list_all (\<lambda>b. b) r"

text \<open>
  The reward granted on a solo win. \<^verbatim>\<open>Math.floor(Math.random() * n)\<close> is some index
  below \<open>n\<close>; the draw is the parameter \<open>rnd\<close>, reduced modulo \<open>n\<close>.
\<close>

definition grantReward :: "nat \<Rightarrow> powerup list \<Rightarrow> powerup list" where
  "grantReward rnd prev =
     (let remaining = filter (\<lambda>p. p \<notin> set prev) POOL
      in if remaining = [] then prev
         else prev @ [remaining ! (rnd mod length remaining)])"

text \<open>
  \<^verbatim>\<open>onGuess(raw)\<close>. \<open>raw\<close> is the one-character string the letter buttons and the key
  handler pass. The closure values are read from \<open>s\<close>; the updates are applied in
  the order of the source, so in the solving branch \<^verbatim>\<open>setScore(finalScore)\<close>, computed
  from the closure's \<^verbatim>\<open>score\<close>, replaces the result of the earlier
  \<^verbatim>\<open>setScore((s) => s + 10 * matchIdx.length)\<close>. \<^verbatim>\<open>scoreMultiplier\<close> is not read.
  (\<^verbatim>\<open>saveScore\<close> is a network call and changes no cell.)
\<close>

definition onGuess :: "nat \<Rightarrow> char \<Rightarrow> game \<Rightarrow> game" where
  "onGuess rnd raw s =
     (if phase s \<noteq> Play \<or> word s = [] then s
      else let ch = toLowerCase raw in
        if map_of (guessed s) ch \<noteq> None then s
        else let idx = matchIdx (word s) ch in
          if length idx > 0 then
            (let newRev = markRevealed idx (revealed s);
                 allRevealed = everyBoolean newRev;
                 s1 = s\<lparr> revealed := newRev, revealedRef := Suc (revealedRef s),
                         guessed := guessed s @ [(ch, Correct)] \<rparr>;
                 s2 = (if mode s = Solo then s1\<lparr> score := score s1 + 10 * int (length idx) \<rparr>
                       else s1)
             in if allRevealed then
                  (if mode s = Solo then
                     (let final = score s + 20 * lives s;
                          s3 = s2\<lparr> score := final, result := Some Win, streak := streak s2 + 1 \<rparr>;
                          wrongGuesses = length (filter (\<lambda>st. st = Wrong) (map snd (guessed s)));
                          isPerfect = (wrongGuesses = 0);
                          s4 = (if isPerfect
                                then s3\<lparr> perfectStreak := perfectStreak s3 + 1,
                                         score := score s3 + 100 \<rparr>
                                else s3\<lparr> perfectStreak := 0 \<rparr>);
                          s5 = s4\<lparr> wordsCompleted := wordsCompleted s4 + 1, phase := Finished \<rparr>;
                          s6 = checkAchievements
                                 \<lparr> won = True, perfect = isPerfect,
                                   finalScore = final + (if isPerfect then 100 else 0),
                                   livesRemaining = lives s \<rparr> s s5
                      in s6\<lparr> availablePowerUps := grantReward rnd (availablePowerUps s6) \<rparr>)
                   else
                     s2\<lparr> winner := Some (if currentIdx s < length (players s)
                                           then players s ! currentIdx s
                                           else ''Player '' @ digits (currentIdx s + 1)),
                         phase := Finished \<rparr>)
                else s2)
          else
            (let s1 = s\<lparr> guessed := guessed s @ [(ch, Wrong)] \<rparr>
             in if mode s = Solo then
                  (let nextLives = lives s - 1;
                       s2 = s1\<lparr> lives := nextLives \<rparr>
                   in if nextLives \<le> 0 then
                        checkAchievements
                          \<lparr> won = False, perfect = False, finalScore = score s,
                            livesRemaining = nextLives \<rparr> s
                          (s2\<lparr> revealed := replicate (length (word s)) True,
                               revealedRef := Suc (revealedRef s2),
                               result := Some Lose, streak := 0, perfectStreak := 0,
                               phase := Finished \<rparr>)
                      else s2)
                else
                  s1\<lparr> currentIdx := (if length (players s) \<noteq> 0
                                       then (currentIdx s1 + 1) mod length (players s)
                                       else currentIdx s1) \<rparr>))"

subsection \<open>Power-ups\<close>

text \<open>\<^verbatim>\<open>handlePowerUp(type)\<close>: two updates, no test of membership.\<close>

definition handlePowerUp :: "powerup \<Rightarrow> game \<Rightarrow> game" where
  "handlePowerUp type s =
     s\<lparr> powerUp := Some type,
        availablePowerUps := filter (\<lambda>p. p \<noteq> type) (availablePowerUps s) \<rparr>"

text \<open>\<^verbatim>\<open>revealed.findIndex(r => !r)\<close>, with \<open>None\<close> for \<open>-1\<close>.\<close>

fun findIndexFalse :: "bool list \<Rightarrow> nat option" where
  "findIndexFalse [] = None"
| "findIndexFalse (r # rs) = (if \<not> r then Some 0 else map_option Suc (findIndexFalse rs))"

text \<open>
  One run of the power-up effect. React first runs the cleanup the previous run
  returned (only the double-points branch returns one: \<^verbatim>\<open>clearTimeout(timer)\<close>), then
  the body. The double-points branch returns before \<^verbatim>\<open>setPowerUp(null)\<close>, so \<^verbatim>\<open>powerUp\<close>
  stays \<^verbatim>\<open>'doublePoints'\<close> after it.
\<close>

definition powerUpEffect :: "game \<Rightarrow> game" where
  "powerUpEffect s =
     (let s0 = s\<lparr> timerArmed := False \<rparr>
      in case powerUp s0 of
           None \<Rightarrow> s0
         | Some p \<Rightarrow>
            (let s1 = s0\<lparr> powerUpsUsed := powerUpsUsed s0 + 1 \<rparr>
             in if p = DoublePoints then
                  s1\<lparr> scoreMultiplier := 2, doublePointsUsed := doublePointsUsed s1 + 1,
                      timerArmed := True \<rparr>
                else
                  (let s2 = (if p = RevealLetter then
                               (let s2a = s1\<lparr> revealLetterUsed := revealLetterUsed s1 + 1 \<rparr>
                                in case findIndexFalse (revealed s) of
                                     None \<Rightarrow> s2a
                                   | Some unrevealedIndex \<Rightarrow>
                                       s2a\<lparr> revealed := (revealed s)[unrevealedIndex := True],
                                            revealedRef := Suc (revealedRef s2a) \<rparr>)
                             else s1);
                       s3 = (if p = ExtraLife then s2\<lparr> lives := lives s2 + 1 \<rparr> else s2)
                   in s3\<lparr> powerUp := None \<rparr>)))"

subsection \<open>Renders and effects\<close>

text \<open>
  The dependency arrays of \<^verbatim>\<open>onGuess\<close> and of the power-up effect. Arrays and objects
  are compared by identity: for \<^verbatim>\<open>revealed\<close> that is \<open>revealedRef\<close>; \<^verbatim>\<open>guessed\<close> and
  \<^verbatim>\<open>players\<close> are replaced either by a value with different content or together with
  \<^verbatim>\<open>revealed\<close>, so comparing their content decides the same.
\<close>

definition guessDeps ::
  "game \<Rightarrow> phase \<times> string \<times> (char \<times> status) list \<times> nat \<times> string list \<times> nat \<times> mode \<times> int" where
  "guessDeps s =
     (phase s, word s, guessed s, revealedRef s, players s, currentIdx s, mode s, lives s)"

definition effectDeps :: "game \<Rightarrow> powerup option \<times> nat \<times> int" where
  "effectDeps s = (powerUp s, revealedRef s, lives s)"

text \<open>
  A render after the state went from \<open>old\<close> to \<open>new\<close>: when a dependency of \<^verbatim>\<open>onGuess\<close>
  changed, \<^verbatim>\<open>onGuess\<close> is re-created and captures the current counters.
\<close>

definition commit :: "game \<Rightarrow> game \<Rightarrow> game" where
  "commit old new =
     (if guessDeps old \<noteq> guessDeps new
      then new\<lparr> capPowerUpsUsed := powerUpsUsed new,
                capDoublePointsUsed := doublePointsUsed new,
                capRevealLetterUsed := revealLetterUsed new \<rparr>
      else new)"

text \<open>
  Render, then run the effect if one of its dependencies changed; its updates cause
  the next render. The effect clears \<^verbatim>\<open>powerUp\<close> or leaves its dependencies alone, so
  this ends after at most two runs.
\<close>

function settle :: "game \<Rightarrow> game \<Rightarrow> game" where
  "settle old new =
     (let r = commit old new
      in if effectDeps old \<noteq> effectDeps r then settle r (powerUpEffect r) else r)"
  by pat_completeness auto

termination settle
proof (relation "measure (\<lambda>(old, new).
           if effectDeps old = effectDeps new then 0
           else if powerUp new = None then 1 else 2)")
  show "wf (measure (\<lambda>(old, new).
           if effectDeps old = effectDeps new then 0
           else if powerUp new = None then (1::nat) else 2))"
    by simp
next
  fix old new r
  assume r: "r = commit old new" and ch: "effectDeps old \<noteq> effectDeps r"
  have same: "effectDeps r = effectDeps new" "powerUp r = powerUp new"
    using r by (simp_all add: commit_def effectDeps_def)
  show "((r, powerUpEffect r), (old, new)) \<in> measure (\<lambda>(old, new).
           if effectDeps old = effectDeps new then 0
           else if powerUp new = None then 1 else 2)"
    using ch same
    by (cases "powerUp r")
       (auto simp add: powerUpEffect_def effectDeps_def Let_def split: option.splits)
qed

declare settle.simps [simp del]

text \<open>
  Activating a power-up: the click on its button (\<^verbatim>\<open>handlePowerUp\<close>), the render, and
  the effect that applies it.
\<close>

definition activate :: "powerup \<Rightarrow> game \<Rightarrow> game" where
  "activate type s = settle s (handlePowerUp type s)"

subsection \<open>Starting a round, reset, and the other controls\<close>

text \<open>
  What \<^verbatim>\<open>fetch\<close> and \<^verbatim>\<open>res.json()\<close> gave: a body with its \<^verbatim>\<open>word\<close> and \<^verbatim>\<open>meaning\<close> as
  strings (empty when missing or falsy) and its \<^verbatim>\<open>display\<close> when that is a string; a
  response that is not ok; or an exception.
\<close>

datatype fetched = FetchData string string "string option" | FetchNotOk | FetchThrew

text \<open>
  \<^verbatim>\<open>startGame\<close>, taken as one step from the click to the last update (no other event in
  between). \<open>rnd\<close> is the draw of the starting power-up.
\<close>

definition startGame :: "fetched \<Rightarrow> nat \<Rightarrow> game \<Rightarrow> game" where
  "startGame fr rnd s =
     (let s0 = s\<lparr> error := None \<rparr>;
          useData = (case fr of FetchData dw dm dd \<Rightarrow> dw \<noteq> [] \<and> dm \<noteq> [] | _ \<Rightarrow> False);
          w = (case fr of FetchData dw dm dd \<Rightarrow>
                 if useData then map toLowerCase dw else ''hello'' | _ \<Rightarrow> ''hello'');
          m = (case fr of FetchData dw dm dd \<Rightarrow>
                 if useData then dm else ''a greeting'' | _ \<Rightarrow> ''a greeting'');
          disp = (case fr of
                    FetchData dw dm dd \<Rightarrow>
                      if useData then (case dd of Some d \<Rightarrow> d | None \<Rightarrow> w) else []
                  | FetchNotOk \<Rightarrow> []
                  | FetchThrew \<Rightarrow> w);
          s1 = (case fr of
                  FetchThrew \<Rightarrow>
                    s0\<lparr> error := Some ''Could not reach backend, using a fallback word.'' \<rparr>
                | _ \<Rightarrow> s0)
      in s1\<lparr> word := w, displayRaw := disp, meaning := m,
             revealed := replicate (length w) False, revealedRef := Suc (revealedRef s1),
             guessed := [],
             availablePowerUps :=
               (if mode s = Solo then [POOL ! (rnd mod length POOL)] else []),
             currentIdx := 0, winner := None, result := None, lives := MAX_LIVES,
             phase := Play \<rparr>)"

text \<open>The \<^verbatim>\<open>onClick\<close> of the Reset button.\<close>

definition resetClick :: "game \<Rightarrow> game" where
  "resetClick s =
     s\<lparr> phase := Setup, players := [], nameInput := [], soloName := [], guessed := [],
        revealed := [], revealedRef := Suc (revealedRef s), winner := None, result := None,
        word := [], meaning := [], displayRaw := [], currentIdx := 0, lives := MAX_LIVES,
        availablePowerUps := [], score := 0, streak := 0 \<rparr>"

definition addPlayer :: "game \<Rightarrow> game" where
  "addPlayer s =
     (let n = trim (nameInput s)
      in if n = [] then s else s\<lparr> players := players s @ [n], nameInput := [] \<rparr>)"

definition removePlayer :: "nat \<Rightarrow> game \<Rightarrow> game" where
  "removePlayer idx s =
     s\<lparr> players := map snd (filter (\<lambda>(i, p). i \<noteq> idx) (enumerate 0 (players s))) \<rparr>"

subsection \<open>Events\<close>

text \<open>
  What the user and the timers can do. \<open>step\<close> lets an event through only where the
  page offers it: the mode, name and source controls and the Start button (disabled in
  multiplayer below two players) in the setup phase; power-up buttons, one per entry
  of \<^verbatim>\<open>availablePowerUps\<close>, in solo play; New Word when finished; Reset outside setup.
  \<^verbatim>\<open>onGuess\<close> guards itself; the letter buttons pass \<open>A\<close> to \<open>Z\<close> and the hyphen, the
  key handler \<open>a\<close> to \<open>z\<close> and the hyphen, and the model lets any character through.
  After the handler the component renders and runs its effect (\<open>settle\<close>).
\<close>

datatype event =
    Guess char nat
  | PowerUp powerup
  | StartGame fetched nat
  | Reset
  | SetMode mode
  | SetSource source
  | TypeName string
  | TypeSoloName string
  | AddPlayer
  | RemovePlayer nat
  | MultiplierTimeout
  | ToastTimeout

definition step :: "event \<Rightarrow> game \<Rightarrow> game" where
  "step e s =
     (case e of
        Guess raw rnd \<Rightarrow> settle s (onGuess rnd raw s)
      | PowerUp type \<Rightarrow>
          if phase s = Play \<and> mode s = Solo \<and> type \<in> set (availablePowerUps s)
          then activate type s else s
      | StartGame fr rnd \<Rightarrow>
          if (phase s = Setup \<and> \<not> (mode s = Multi \<and> length (players s) < 2))
             \<or> phase s = Finished
          then settle s (startGame fr rnd s) else s
      | Reset \<Rightarrow> if phase s \<noteq> Setup then settle s (resetClick s) else s
      | SetMode m \<Rightarrow> if phase s = Setup then settle s (s\<lparr> mode := m \<rparr>) else s
      | SetSource src \<Rightarrow> if phase s = Setup then settle s (s\<lparr> source := src \<rparr>) else s
      | TypeName n \<Rightarrow>
          if phase s = Setup \<and> mode s = Multi then settle s (s\<lparr> nameInput := n \<rparr>) else s
      | TypeSoloName n \<Rightarrow>
          if phase s = Setup \<and> mode s = Solo then settle s (s\<lparr> soloName := n \<rparr>) else s
      | AddPlayer \<Rightarrow>
          if phase s = Setup \<and> mode s = Multi then settle s (addPlayer s) else s
      | RemovePlayer idx \<Rightarrow>
          if phase s = Setup \<and> mode s = Multi \<and> idx < length (players s)
          then settle s (removePlayer idx s) else s
      | MultiplierTimeout \<Rightarrow>
          if timerArmed s then settle s (s\<lparr> scoreMultiplier := 1, timerArmed := False \<rparr>) else s
      | ToastTimeout \<Rightarrow>
          if showAchievement s \<noteq> None then settle s (s\<lparr> showAchievement := None \<rparr>) else s)"

text \<open>A run of events from a state, and the states the component can be in.\<close>

definition run :: "event list \<Rightarrow> game \<Rightarrow> game" where
  "run es s = foldl (\<lambda>a e. step e a) s es"

inductive reachable :: "game \<Rightarrow> bool" where
  reachable_init: "reachable init"
| reachable_step: "reachable s \<Longrightarrow> reachable (step e s)"

subsection \<open>Invariants of the reachable states\<close>

text \<open>
  \<open>roundInv\<close>: the mask has the word's length; outside setup there is a word; a
  multiplayer round has at least two players and a turn index among them; a finished
  round shows every letter. \<open>settled\<close>: between events no reveal-letter or extra-life
  activation is pending (the effect clears those; double points stays).
\<close>

definition roundInv :: "game \<Rightarrow> bool" where
  "roundInv s \<longleftrightarrow>
     length (revealed s) = length (word s)
     \<and> (phase s \<noteq> Setup \<longrightarrow> word s \<noteq> [])
     \<and> (mode s = Multi \<and> phase s \<noteq> Setup \<longrightarrow>
          2 \<le> length (players s) \<and> currentIdx s < length (players s))
     \<and> (phase s = Finished \<longrightarrow> everyBoolean (revealed s))"

definition settled :: "game \<Rightarrow> bool" where
  "settled s \<longleftrightarrow> powerUp s \<noteq> Some RevealLetter \<and> powerUp s \<noteq> Some ExtraLife"

subsection \<open>Notions of the specification\<close>

text \<open>
  A round is solved when it has finished with a solo win or with a multiplayer winner.
  \<open>replacesRound\<close> marks the events that replace the round's word and mask: a new
  word and the reset.
\<close>

definition solved :: "game \<Rightarrow> bool" where
  "solved s \<longleftrightarrow>
     phase s = Finished
     \<and> (case mode s of Solo \<Rightarrow> result s = Some Win | Multi \<Rightarrow> winner s \<noteq> None)"

fun replacesRound :: "event \<Rightarrow> bool" where
  "replacesRound (StartGame fr rnd) = True"
| "replacesRound Reset = True"
| "replacesRound e = False"

subsection \<open>Rounds played out\<close>

text \<open>
  The states of some short games, written out; the lemmas of the section on played
  rounds show that the named events lead from one to the next. \<open>cat0\<close> to \<open>cat3\<close>: a
  solo round on "cat" with a double-points starter, solved by \<open>c\<close>, \<open>a\<close>, \<open>t\<close>;
  \<open>catDP\<close>: double points activated at once; \<open>catR0\<close>, \<open>catE0\<close>: the same round with a
  reveal-letter and an extra-life starter; \<open>eel0\<close>: a round on "eel"; \<open>ayMiss g l\<close>: a
  round on "a" after the wrong guesses \<open>g\<close>, with \<open>l\<close> lives left; \<open>lobby\<close>: the
  multiplayer setup screen; \<open>trio0\<close> to \<open>trio3\<close>: three players on "cat". \<open>catR2\<close> is
  not a state of a game: it is \<open>catR1\<close> with the whole mask revealed, to run the
  reveal-letter effect where \<^verbatim>\<open>findIndex\<close> finds nothing.
\<close>

definition catF :: fetched where
  "catF = FetchData ''cat'' ''a pet'' None"

definition cat0 :: game where
  "cat0 = init\<lparr> word := ''cat'', displayRaw := ''cat'', meaning := ''a pet'',
     revealed := [False, False, False], revealedRef := 1,
     availablePowerUps := [DoublePoints], phase := Play \<rparr>"

definition cat1 :: game where
  "cat1 = cat0\<lparr> revealed := [True, False, False], revealedRef := 2,
     guessed := [(CHR ''c'', Correct)], score := 10 \<rparr>"

definition cat2 :: game where
  "cat2 = cat1\<lparr> revealed := [True, True, False], revealedRef := 3,
     guessed := [(CHR ''c'', Correct), (CHR ''a'', Correct)], score := 20 \<rparr>"

definition cat3 :: game where
  "cat3 = cat2\<lparr> revealed := [True, True, True], revealedRef := 4,
     guessed := [(CHR ''c'', Correct), (CHR ''a'', Correct), (CHR ''t'', Correct)],
     score := 240, result := Some Win, streak := 1, perfectStreak := 1,
     wordsCompleted := 1, phase := Finished,
     achievements := [FirstWin, PerfectGame, Speedster], showAchievement := Some FirstWin,
     availablePowerUps := [DoublePoints, RevealLetter] \<rparr>"

definition catDP :: game where
  "catDP = cat0\<lparr> powerUp := Some DoublePoints, availablePowerUps := [],
     powerUpsUsed := 1, doublePointsUsed := 1, scoreMultiplier := 2, timerArmed := True \<rparr>"

definition catDP1 :: game where
  "catDP1 = catDP\<lparr> revealed := [True, False, False], revealedRef := 2,
     guessed := [(CHR ''c'', Correct)], score := 10,
     powerUpsUsed := 2, doublePointsUsed := 2,
     capPowerUpsUsed := 1, capDoublePointsUsed := 1 \<rparr>"

definition catR0 :: game where
  "catR0 = cat0\<lparr> availablePowerUps := [RevealLetter] \<rparr>"

definition catR1 :: game where
  "catR1 = catR0\<lparr> revealed := [True, False, False], revealedRef := 2,
     guessed := [(CHR ''c'', Correct)], score := 10 \<rparr>"

definition catE0 :: game where
  "catE0 = cat0\<lparr> availablePowerUps := [ExtraLife] \<rparr>"

definition catE1 :: game where
  "catE1 = catE0\<lparr> availablePowerUps := [], lives := 7, powerUpsUsed := 1,
     capPowerUpsUsed := 1 \<rparr>"

definition eelF :: fetched where
  "eelF = FetchData ''eel'' ''a fish'' None"

definition eel0 :: game where
  "eel0 = init\<lparr> word := ''eel'', displayRaw := ''eel'', meaning := ''a fish'',
     revealed := [False, False, False], revealedRef := 1,
     availablePowerUps := [DoublePoints], phase := Play \<rparr>"

definition eelDP :: game where
  "eelDP = eel0\<lparr> powerUp := Some DoublePoints, availablePowerUps := [],
     powerUpsUsed := 1, doublePointsUsed := 1, scoreMultiplier := 2, timerArmed := True \<rparr>"

definition ayF :: fetched where
  "ayF = FetchData ''a'' ''a letter'' None"

definition ayMiss :: "(char \<times> status) list \<Rightarrow> int \<Rightarrow> game" where
  "ayMiss g l = init\<lparr> word := ''a'', displayRaw := ''a'', meaning := ''a letter'',
     revealed := [False], revealedRef := 1, availablePowerUps := [DoublePoints],
     phase := Play, guessed := g, lives := l \<rparr>"

definition ayFive :: game where
  "ayFive = ayMiss [(CHR ''b'', Wrong), (CHR ''c'', Wrong), (CHR ''d'', Wrong),
                    (CHR ''e'', Wrong), (CHR ''f'', Wrong)] 1"

definition ayLost :: game where
  "ayLost = ayFive\<lparr> guessed := guessed ayFive @ [(CHR ''g'', Wrong)], lives := 0,
     revealed := [True], revealedRef := 2, result := Some Lose, phase := Finished \<rparr>"

definition ayWon :: game where
  "ayWon = ayFive\<lparr> guessed := guessed ayFive @ [(CHR ''a'', Correct)],
     revealed := [True], revealedRef := 2, result := Some Win, phase := Finished,
     score := 20, streak := 1, wordsCompleted := 1,
     achievements := [FirstWin, Survivor], showAchievement := Some FirstWin,
     availablePowerUps := [DoublePoints, RevealLetter] \<rparr>"

definition lobby :: "string list \<Rightarrow> string \<Rightarrow> game" where
  "lobby ps inp = init\<lparr> mode := Multi, players := ps, nameInput := inp \<rparr>"

definition trio0 :: game where
  "trio0 = (lobby [''ann'', ''bob'', ''cy''] [])\<lparr> word := ''cat'', displayRaw := ''cat'',
     meaning := ''a pet'', revealed := [False, False, False], revealedRef := 1,
     phase := Play \<rparr>"

definition trio1 :: game where
  "trio1 = trio0\<lparr> guessed := [(CHR ''x'', Wrong)], currentIdx := 1 \<rparr>"

definition catR2 :: game where
  "catR2 = catR1\<lparr> revealed := [True, True, True] \<rparr>"

definition eelDP1 :: game where
  "eelDP1 = eelDP\<lparr> revealed := [True, True, False], revealedRef := 2,
     guessed := [(CHR ''e'', Correct)], score := 20,
     powerUpsUsed := 2, doublePointsUsed := 2,
     capPowerUpsUsed := 1, capDoublePointsUsed := 1 \<rparr>"

definition trio2 :: game where
  "trio2 = trio1\<lparr> revealed := [True, False, False], revealedRef := 2,
     guessed := [(CHR ''x'', Wrong), (CHR ''c'', Correct)] \<rparr>"

definition trio3 :: game where
  "trio3 = trio2\<lparr> revealed := [True, True, False], revealedRef := 3,
     guessed := [(CHR ''x'', Wrong), (CHR ''c'', Correct), (CHR ''a'', Correct)] \<rparr>"

section \<open>Renders and effects: basic facts\<close>

text \<open>
  A render changes only the captured counters; the effect never touches the round's
  word, guesses, phase, turn, score or streaks.
\<close>

lemma commit_fields [simp]:
  "mode (commit a b) = mode b" "soloName (commit a b) = soloName b"
  "players (commit a b) = players b" "nameInput (commit a b) = nameInput b"
  "phase (commit a b) = phase b" "currentIdx (commit a b) = currentIdx b"
  "word (commit a b) = word b" "displayRaw (commit a b) = displayRaw b"
  "meaning (commit a b) = meaning b" "revealed (commit a b) = revealed b"
  "guessed (commit a b) = guessed b" "winner (commit a b) = winner b"
  "result (commit a b) = result b" "error (commit a b) = error b"
  "source (commit a b) = source b" "powerUp (commit a b) = powerUp b"
  "lives (commit a b) = lives b" "score (commit a b) = score b"
  "streak (commit a b) = streak b" "scoreMultiplier (commit a b) = scoreMultiplier b"
  "perfectStreak (commit a b) = perfectStreak b" "achievements (commit a b) = achievements b"
  "showAchievement (commit a b) = showAchievement b" "powerUpsUsed (commit a b) = powerUpsUsed b"
  "wordsCompleted (commit a b) = wordsCompleted b"
  "doublePointsUsed (commit a b) = doublePointsUsed b"
  "revealLetterUsed (commit a b) = revealLetterUsed b"
  "availablePowerUps (commit a b) = availablePowerUps b"
  "revealedRef (commit a b) = revealedRef b" "timerArmed (commit a b) = timerArmed b"
  by (simp_all add: commit_def)

lemma commit_deps [simp]:
  "effectDeps (commit a b) = effectDeps b" "guessDeps (commit a b) = guessDeps b"
  by (simp_all add: effectDeps_def guessDeps_def)

lemma commit_refl [simp]: "commit s s = s"
  by (simp add: commit_def)

lemma effect_fields [simp]:
  "mode (powerUpEffect s) = mode s" "soloName (powerUpEffect s) = soloName s"
  "players (powerUpEffect s) = players s" "nameInput (powerUpEffect s) = nameInput s"
  "phase (powerUpEffect s) = phase s" "currentIdx (powerUpEffect s) = currentIdx s"
  "word (powerUpEffect s) = word s" "displayRaw (powerUpEffect s) = displayRaw s"
  "meaning (powerUpEffect s) = meaning s" "guessed (powerUpEffect s) = guessed s"
  "winner (powerUpEffect s) = winner s" "result (powerUpEffect s) = result s"
  "error (powerUpEffect s) = error s" "source (powerUpEffect s) = source s"
  "score (powerUpEffect s) = score s" "streak (powerUpEffect s) = streak s"
  "perfectStreak (powerUpEffect s) = perfectStreak s"
  "achievements (powerUpEffect s) = achievements s"
  "showAchievement (powerUpEffect s) = showAchievement s"
  "wordsCompleted (powerUpEffect s) = wordsCompleted s"
  "availablePowerUps (powerUpEffect s) = availablePowerUps s"
  by (simp_all add: powerUpEffect_def Let_def split: option.splits)

lemma effect_powerUp:
  "powerUp (powerUpEffect s) = (if powerUp s = Some DoublePoints then Some DoublePoints else None)"
  by (simp add: powerUpEffect_def Let_def split: option.splits)

lemma settle_pres:
  assumes "\<And>s. P s \<Longrightarrow> P (powerUpEffect s)" and "\<And>a b. P b \<Longrightarrow> P (commit a b)"
  shows "P n \<Longrightarrow> P (settle old n)"
proof (induction old n rule: settle.induct)
  case (1 old new)
  show ?case
  proof (cases "effectDeps old \<noteq> effectDeps (commit old new)")
    case True
    have "P (powerUpEffect (commit old new))" using assms "1.prems" by blast
    then have "P (settle (commit old new) (powerUpEffect (commit old new)))"
      using "1.IH" True by blast
    then show ?thesis using True by (subst settle.simps) (simp add: Let_def)
  next
    case False
    then show ?thesis using assms(2) "1.prems" by (subst settle.simps) (simp add: Let_def)
  qed
qed

lemma settle_stable:
  assumes "\<And>s. f (powerUpEffect s) = f s" and "\<And>a b. f (commit a b) = f b"
  shows "f (settle old n) = f n"
  by (rule settle_pres [where P = "\<lambda>s. f s = f n"]) (simp_all add: assms)

lemma settle_fields [simp]:
  "mode (settle a b) = mode b" "soloName (settle a b) = soloName b"
  "players (settle a b) = players b" "nameInput (settle a b) = nameInput b"
  "phase (settle a b) = phase b" "currentIdx (settle a b) = currentIdx b"
  "word (settle a b) = word b" "displayRaw (settle a b) = displayRaw b"
  "meaning (settle a b) = meaning b" "guessed (settle a b) = guessed b"
  "winner (settle a b) = winner b" "result (settle a b) = result b"
  "error (settle a b) = error b" "source (settle a b) = source b"
  "score (settle a b) = score b" "streak (settle a b) = streak b"
  "perfectStreak (settle a b) = perfectStreak b"
  "achievements (settle a b) = achievements b"
  "showAchievement (settle a b) = showAchievement b"
  "wordsCompleted (settle a b) = wordsCompleted b"
  "availablePowerUps (settle a b) = availablePowerUps b"
  by (rule settle_stable; simp)+

lemma settle_refl [simp]: "settle s s = s"
  by (subst settle.simps) (simp add: Let_def)

lemma settle_revealed: "powerUp n \<noteq> Some RevealLetter \<Longrightarrow> revealed (settle old n) = revealed n"
  by (rule conjunct1 [OF settle_pres [where P = "\<lambda>s. revealed s = revealed n \<and> powerUp s \<noteq> Some RevealLetter"]])
     (auto simp add: powerUpEffect_def Let_def split: option.splits)

lemma settle_lives: "powerUp n \<noteq> Some ExtraLife \<Longrightarrow> lives (settle old n) = lives n"
  by (rule conjunct1 [OF settle_pres [where P = "\<lambda>s. lives s = lives n \<and> powerUp s \<noteq> Some ExtraLife"]])
     (auto simp add: powerUpEffect_def Let_def split: option.splits)

lemma settle_powerUp:
  assumes "powerUp n = Some RevealLetter \<or> powerUp n = Some ExtraLife \<Longrightarrow> effectDeps old \<noteq> effectDeps n"
  shows "powerUp (settle old n) \<noteq> Some RevealLetter \<and> powerUp (settle old n) \<noteq> Some ExtraLife"
proof (cases "effectDeps old \<noteq> effectDeps n")
  case True
  let ?r = "commit old n"
  have "powerUp (settle ?r (powerUpEffect ?r)) \<noteq> Some RevealLetter
        \<and> powerUp (settle ?r (powerUpEffect ?r)) \<noteq> Some ExtraLife"
    by (rule settle_pres [where P = "\<lambda>s. powerUp s \<noteq> Some RevealLetter \<and> powerUp s \<noteq> Some ExtraLife"])
       (simp_all add: effect_powerUp)
  then show ?thesis using True by (subst (1 2) settle.simps) (simp add: Let_def)
next
  case False
  then show ?thesis using assms by (subst (1 2) settle.simps) (auto simp add: Let_def)
qed

section \<open>The invariants hold in every reachable state\<close>

lemma check_fields [simp]:
  "mode (checkAchievements gd c s) = mode s" "soloName (checkAchievements gd c s) = soloName s"
  "players (checkAchievements gd c s) = players s" "nameInput (checkAchievements gd c s) = nameInput s"
  "phase (checkAchievements gd c s) = phase s" "currentIdx (checkAchievements gd c s) = currentIdx s"
  "word (checkAchievements gd c s) = word s" "displayRaw (checkAchievements gd c s) = displayRaw s"
  "meaning (checkAchievements gd c s) = meaning s" "revealed (checkAchievements gd c s) = revealed s"
  "guessed (checkAchievements gd c s) = guessed s" "winner (checkAchievements gd c s) = winner s"
  "result (checkAchievements gd c s) = result s" "error (checkAchievements gd c s) = error s"
  "source (checkAchievements gd c s) = source s" "powerUp (checkAchievements gd c s) = powerUp s"
  "lives (checkAchievements gd c s) = lives s" "score (checkAchievements gd c s) = score s"
  "streak (checkAchievements gd c s) = streak s"
  "scoreMultiplier (checkAchievements gd c s) = scoreMultiplier s"
  "perfectStreak (checkAchievements gd c s) = perfectStreak s"
  "powerUpsUsed (checkAchievements gd c s) = powerUpsUsed s"
  "wordsCompleted (checkAchievements gd c s) = wordsCompleted s"
  "doublePointsUsed (checkAchievements gd c s) = doublePointsUsed s"
  "revealLetterUsed (checkAchievements gd c s) = revealLetterUsed s"
  "availablePowerUps (checkAchievements gd c s) = availablePowerUps s"
  "revealedRef (checkAchievements gd c s) = revealedRef s"
  "timerArmed (checkAchievements gd c s) = timerArmed s"
  by (simp_all add: checkAchievements_def Let_def)

lemma length_markRevealed [simp]: "length (markRevealed idx r) = length r"
  unfolding markRevealed_def by (induction idx arbitrary: r) simp_all

lemma everyBoolean_replicate [simp]: "everyBoolean (replicate n True)"
  by (simp add: everyBoolean_def list_all_iff)

lemma everyBoolean_update: "everyBoolean r \<Longrightarrow> everyBoolean (r[i := True])"
  by (auto simp add: everyBoolean_def list_all_iff dest: subsetD [OF set_update_subset_insert])

lemma effect_revealed_cases:
  "revealed (powerUpEffect s) = revealed s
   \<or> (\<exists>i. revealed (powerUpEffect s) = (revealed s)[i := True])"
  by (auto simp add: powerUpEffect_def Let_def split: option.splits)

lemma roundInv_effect: "roundInv s \<Longrightarrow> roundInv (powerUpEffect s)"
  using effect_revealed_cases [of s]
  by (auto simp add: roundInv_def everyBoolean_update)

lemma roundInv_commit: "roundInv b \<Longrightarrow> roundInv (commit a b)"
  by (simp add: roundInv_def)

lemma roundInv_settle: "roundInv n \<Longrightarrow> roundInv (settle old n)"
  by (rule settle_pres [where P = roundInv]) (simp_all add: roundInv_effect roundInv_commit)

lemma roundInv_onGuess: "roundInv s \<Longrightarrow> roundInv (onGuess rnd raw s)"
  by (auto simp add: roundInv_def onGuess_def Let_def)

lemma roundInv_startGame:
  assumes "roundInv s"
    and "(phase s = Setup \<and> \<not> (mode s = Multi \<and> length (players s) < 2)) \<or> phase s = Finished"
  shows "roundInv (startGame fr rnd s)"
  using assms
  by (auto simp add: roundInv_def startGame_def Let_def everyBoolean_def split: fetched.splits)

lemma roundInv_resetClick: "roundInv (resetClick s)"
  by (simp add: roundInv_def resetClick_def)

lemma powerUp_onGuess [simp]: "powerUp (onGuess rnd raw s) = powerUp s"
  by (simp add: onGuess_def Let_def)

lemma powerUp_startGame [simp]: "powerUp (startGame fr rnd s) = powerUp s"
  by (simp add: startGame_def Let_def split: fetched.splits)

lemma powerUp_resetClick [simp]: "powerUp (resetClick s) = powerUp s"
  by (simp add: resetClick_def)

lemma settled_settle_same: "settled s \<Longrightarrow> powerUp n = powerUp s \<Longrightarrow> settled (settle s n)"
  using settle_powerUp [of n s] by (simp add: settled_def)

lemma settled_handlePowerUp: "settled s \<Longrightarrow> settled (settle s (handlePowerUp type s))"
  unfolding settled_def
  by (rule settle_powerUp) (auto simp add: handlePowerUp_def effectDeps_def)

lemma inv_step:
  assumes "roundInv s" and "settled s"
  shows "roundInv (step e s) \<and> settled (step e s)"
proof (cases e)
  case (Guess raw rnd)
  then show ?thesis
    using assms
    by (simp add: step_def roundInv_settle roundInv_onGuess settled_settle_same)
next
  case (PowerUp type)
  then show ?thesis
    using assms
    by (auto simp add: step_def activate_def settled_handlePowerUp intro!: roundInv_settle)
       (simp add: roundInv_def handlePowerUp_def)
next
  case (StartGame fr rnd)
  then show ?thesis
    using assms
    by (auto simp add: step_def roundInv_settle roundInv_startGame settled_settle_same)
next
  case Reset
  then show ?thesis
    using assms
    by (simp add: step_def roundInv_settle roundInv_resetClick settled_settle_same)
next
  case (SetMode m)
  then show ?thesis
    using assms
    by (auto simp add: step_def settled_settle_same intro!: roundInv_settle)
       (simp add: roundInv_def)
next
  case (SetSource src)
  then show ?thesis
    using assms
    by (auto simp add: step_def settled_settle_same intro!: roundInv_settle)
       (simp add: roundInv_def)
next
  case (TypeName n)
  then show ?thesis
    using assms
    by (auto simp add: step_def settled_settle_same intro!: roundInv_settle)
       (simp add: roundInv_def)
next
  case (TypeSoloName n)
  then show ?thesis
    using assms
    by (auto simp add: step_def settled_settle_same intro!: roundInv_settle)
       (simp add: roundInv_def)
next
  case AddPlayer
  then show ?thesis
    using assms
    by (auto simp add: step_def settled_settle_same addPlayer_def Let_def intro!: roundInv_settle)
       (simp_all add: roundInv_def)
next
  case (RemovePlayer idx)
  then show ?thesis
    using assms
    by (auto simp add: step_def settled_settle_same removePlayer_def intro!: roundInv_settle)
       (simp add: roundInv_def)
next
  case MultiplierTimeout
  then show ?thesis
    using assms
    by (auto simp add: step_def settled_settle_same intro!: roundInv_settle)
       (simp add: roundInv_def)
next
  case ToastTimeout
  then show ?thesis
    using assms
    by (auto simp add: step_def settled_settle_same intro!: roundInv_settle)
       (simp add: roundInv_def)
qed

lemma reachable_inv: "reachable s \<Longrightarrow> roundInv s \<and> settled s"
proof (induction rule: reachable.induct)
  case reachable_init
  show ?case by (simp add: roundInv_def settled_def init_def)
next
  case (reachable_step s e)
  then show ?case by (simp add: inv_step)
qed

lemma reachable_run: "reachable s \<Longrightarrow> reachable (run es s)"
  unfolding run_def by (induction es arbitrary: s) (simp_all add: reachable_step)

section \<open>The mask under guesses and reveals\<close>

lemma findIndexFalse_None: "findIndexFalse r = None \<longleftrightarrow> everyBoolean r"
  by (induction r) (auto simp add: everyBoolean_def)

lemma findIndexFalse_Some:
  "findIndexFalse r = Some i \<Longrightarrow> i < length r \<and> \<not> r ! i \<and> (\<forall>j<i. r ! j)"
proof (induction r arbitrary: i)
  case Nil
  then show ?case by simp
next
  case (Cons b r)
  show ?case
  proof (cases b)
    case False
    then show ?thesis using Cons.prems by simp
  next
    case True
    then obtain k where k: "findIndexFalse r = Some k" "i = Suc k"
      using Cons.prems by auto
    then show ?thesis using Cons.IH [OF k(1)] True by (auto simp add: less_Suc_eq_0_disj)
  qed
qed

lemma nth_update_True: "i < length r \<Longrightarrow> r ! i \<Longrightarrow> r[a := True] ! i"
  by (cases "a = i") simp_all

lemma markRevealed_mono:
  "i < length r \<Longrightarrow> r ! i \<Longrightarrow> markRevealed idx r ! i"
  unfolding markRevealed_def
proof (induction idx arbitrary: r)
  case Nil
  then show ?case by simp
next
  case (Cons a idx)
  have "i < length (r[a := True])" and "(r[a := True]) ! i"
    using Cons.prems by (simp_all add: nth_update_True)
  then show ?case using Cons.IH by simp
qed

lemma revealed_onGuess_mono:
  assumes "length (revealed s) = length (word s)" and "i < length (revealed s)" and "revealed s ! i"
  shows "i < length (revealed (onGuess rnd raw s)) \<and> revealed (onGuess rnd raw s) ! i"
  using assms by (auto simp add: onGuess_def Let_def markRevealed_mono)

lemma settle_revealed_mono:
  assumes "i < length (revealed n)" and "revealed n ! i"
  shows "i < length (revealed (settle old n)) \<and> revealed (settle old n) ! i"
proof (rule settle_pres [where P = "\<lambda>s. i < length (revealed s) \<and> revealed s ! i"])
  fix s :: game assume "i < length (revealed s) \<and> revealed s ! i"
  then show "i < length (revealed (powerUpEffect s)) \<and> revealed (powerUpEffect s) ! i"
    using effect_revealed_cases [of s] by (auto simp add: nth_update_True)
next
  fix a b :: game assume "i < length (revealed b) \<and> revealed b ! i"
  then show "i < length (revealed (commit a b)) \<and> revealed (commit a b) ! i" by simp
next
  show "i < length (revealed n) \<and> revealed n ! i" using assms by simp
qed

lemma settle_counters_mono:
  "powerUpsUsed n \<le> powerUpsUsed (settle old n)
   \<and> doublePointsUsed n \<le> doublePointsUsed (settle old n)
   \<and> revealLetterUsed n \<le> revealLetterUsed (settle old n)"
  by (rule settle_pres [where P = "\<lambda>s. powerUpsUsed n \<le> powerUpsUsed s
        \<and> doublePointsUsed n \<le> doublePointsUsed s \<and> revealLetterUsed n \<le> revealLetterUsed s"])
     (auto simp add: powerUpEffect_def Let_def split: option.splits)

lemma settle_activate_reveal:
  assumes "powerUp old \<noteq> Some RevealLetter" and "powerUp n = Some RevealLetter"
  shows "revealed (settle old n) =
           (case findIndexFalse (revealed n) of None \<Rightarrow> revealed n
            | Some i \<Rightarrow> (revealed n)[i := True])"
proof -
  let ?r = "commit old n"
  have ch: "effectDeps old \<noteq> effectDeps ?r"
    using assms by (auto simp add: effectDeps_def)
  have "settle old n = settle ?r (powerUpEffect ?r)"
    using ch by (subst settle.simps) (simp add: Let_def)
  moreover have "powerUp (powerUpEffect ?r) \<noteq> Some RevealLetter"
    by (simp add: effect_powerUp)
  ultimately have "revealed (settle old n) = revealed (powerUpEffect ?r)"
    by (simp add: settle_revealed)
  also have "\<dots> = (case findIndexFalse (revealed n) of None \<Rightarrow> revealed n
            | Some i \<Rightarrow> (revealed n)[i := True])"
    using assms(2) by (simp add: powerUpEffect_def Let_def split: option.splits)
  finally show ?thesis .
qed

lemma handlePowerUp_fields [simp]:
  "revealed (handlePowerUp type s) = revealed s" "powerUp (handlePowerUp type s) = Some type"
  by (simp_all add: handlePowerUp_def)

lemma step_guess_revealed:
  assumes "settled s"
  shows "revealed (step (Guess raw rnd) s) = revealed (onGuess rnd raw s)"
  using assms by (simp add: step_def settled_def settle_revealed)

section \<open>Played rounds\<close>

text \<open>Each lemma runs one event on a written-out state.\<close>

lemmas evals = step_def activate_def startGame_def onGuess_def settle.simps commit_def
  guessDeps_def effectDeps_def powerUpEffect_def toLowerCase_def matchIdx_def markRevealed_def
  everyBoolean_def checkAchievements_def newAchievements_def grantReward_def POOL_def MAX_LIVES_def
  handlePowerUp_def resetClick_def addPlayer_def trim_def isSpace_def Let_def upt_rec init_def

lemma run_Nil [simp]: "run [] s = s"
  by (simp add: run_def)

lemma run_Cons [simp]: "run (e # es) s = run es (step e s)"
  by (simp add: run_def)

lemma cat_step0: "step (StartGame catF 0) init = cat0"
  by (simp add: evals catF_def cat0_def)

lemma cat_step1: "step (Guess CHR ''c'' 0) cat0 = cat1"
  by (simp add: evals cat0_def cat1_def)

lemma cat_step2: "step (Guess CHR ''a'' 0) cat1 = cat2"
  by (simp add: evals cat0_def cat1_def cat2_def)

lemma cat_step3: "step (Guess CHR ''t'' 0) cat2 = cat3"
  by (simp add: evals cat0_def cat1_def cat2_def cat3_def)

lemma cat_stepDP: "step (PowerUp DoublePoints) cat0 = catDP"
  by (simp add: evals cat0_def catDP_def)

lemma cat_stepDP1: "step (Guess CHR ''c'' 0) catDP = catDP1"
  by (simp add: evals cat0_def catDP_def catDP1_def)

lemma cat_stepR0: "step (StartGame catF 1) init = catR0"
  by (simp add: evals catF_def cat0_def catR0_def)

lemma cat_stepR1: "step (Guess CHR ''c'' 0) catR0 = catR1"
  by (simp add: evals cat0_def catR0_def catR1_def)

lemma cat_stepE0: "step (StartGame catF 2) init = catE0"
  by (simp add: evals catF_def cat0_def catE0_def)

lemma cat_stepE1: "step (PowerUp ExtraLife) catE0 = catE1"
  by (simp add: evals cat0_def catE0_def catE1_def)

lemma eel_step0: "step (StartGame eelF 0) init = eel0"
  by (simp add: evals eelF_def eel0_def)

lemma eel_stepDP: "step (PowerUp DoublePoints) eel0 = eelDP"
  by (simp add: evals eel0_def eelDP_def)

lemma ay_step0: "step (StartGame ayF 0) init = ayMiss [] 6"
  by (simp add: evals ayF_def ayMiss_def)

lemma ay_miss:
  assumes "map_of g ch = None" and "ch \<noteq> CHR ''a''" and "toLowerCase ch = ch" and "1 < l"
  shows "step (Guess ch 0) (ayMiss g l) = ayMiss (g @ [(ch, Wrong)]) (l - 1)"
  using assms
  by (simp add: step_def onGuess_def settle.simps commit_def guessDeps_def effectDeps_def
        powerUpEffect_def matchIdx_def Let_def upt_rec init_def ayMiss_def)

lemma ay_run5:
  "run [StartGame ayF 0, Guess CHR ''b'' 0, Guess CHR ''c'' 0, Guess CHR ''d'' 0,
        Guess CHR ''e'' 0, Guess CHR ''f'' 0] init = ayFive"
  by (simp add: ay_step0 ay_miss toLowerCase_def ayFive_def)

lemma ay_stepLost: "step (Guess CHR ''g'' 0) ayFive = ayLost"
  by (simp add: evals ayFive_def ayMiss_def ayLost_def)

lemma ay_stepWon: "step (Guess CHR ''a'' 0) ayFive = ayWon"
  by (simp add: evals ayFive_def ayMiss_def ayWon_def)

lemma lobby_steps:
  "step (SetMode Multi) init = lobby [] []"
  "step (TypeName n) (lobby ps inp) = lobby ps n"
  by (simp_all add: evals lobby_def)

lemma lobby_add:
  "trim n = n \<Longrightarrow> n \<noteq> [] \<Longrightarrow> step AddPlayer (lobby ps n) = lobby (ps @ [n]) []"
  by (simp add: step_def addPlayer_def settle.simps commit_def guessDeps_def effectDeps_def
        powerUpEffect_def Let_def init_def lobby_def)

lemma trio_run0:
  "run [SetMode Multi, TypeName ''ann'', AddPlayer, TypeName ''bob'', AddPlayer,
        TypeName ''cy'', AddPlayer] init = lobby [''ann'', ''bob'', ''cy''] []"
  by (simp add: lobby_steps lobby_add trim_def isSpace_def)

lemma trio_step0: "step (StartGame catF 0) (lobby [''ann'', ''bob'', ''cy''] []) = trio0"
  by (simp add: evals catF_def lobby_def trio0_def)

lemma trio_step1: "step (Guess CHR ''x'' 0) trio0 = trio1"
  by (simp add: evals lobby_def trio0_def trio1_def)

lemma eel_stepDP1: "step (Guess CHR ''e'' 0) eelDP = eelDP1"
  by (simp add: evals eel0_def eelDP_def eelDP1_def)

lemma trio_step2: "step (Guess CHR ''c'' 0) trio1 = trio2"
  by (simp add: evals lobby_def trio0_def trio1_def trio2_def)

lemma trio_step3: "step (Guess CHR ''a'' 0) trio2 = trio3"
  by (simp add: evals lobby_def trio0_def trio1_def trio2_def trio3_def)

lemma trio_revealed4: "revealed (step (Guess CHR ''t'' 0) trio3) = [True, True, True]"
  by (simp add: evals lobby_def trio0_def trio1_def trio2_def trio3_def)

lemma cat_resetE: "powerUpsUsed (step Reset catE1) = 1"
  by (simp add: evals cat0_def catE0_def catE1_def resetClick_def)

lemma reachable_via: "run es init = s \<Longrightarrow> reachable s"
  using reachable_run [OF reachable_init, of es] by simp

lemma reachable_cat:
  "reachable cat0" "reachable cat1" "reachable cat2" "reachable cat3"
proof -
  show "reachable cat0"
    by (rule reachable_via [of "[StartGame catF 0]"]) (simp add: cat_step0)
  show "reachable cat1"
    by (rule reachable_via [of "[StartGame catF 0, Guess CHR ''c'' 0]"])
       (simp add: cat_step0 cat_step1)
  show "reachable cat2"
    by (rule reachable_via [of "[StartGame catF 0, Guess CHR ''c'' 0, Guess CHR ''a'' 0]"])
       (simp add: cat_step0 cat_step1 cat_step2)
  show "reachable cat3"
    by (rule reachable_via [of "[StartGame catF 0, Guess CHR ''c'' 0, Guess CHR ''a'' 0,
          Guess CHR ''t'' 0]"])
       (simp add: cat_step0 cat_step1 cat_step2 cat_step3)
qed

lemma reachable_trio:
  "reachable trio0" "reachable trio1" "reachable trio2" "reachable trio3"
proof -
  have l: "reachable (lobby [''ann'', ''bob'', ''cy''] [])"
    by (rule reachable_via [OF trio_run0])
  show 0: "reachable trio0"
    using reachable_step [OF l, of "StartGame catF 0"] by (simp add: trio_step0)
  show 1: "reachable trio1"
    using reachable_step [OF 0, of "Guess CHR ''x'' 0"] by (simp add: trio_step1)
  show 2: "reachable trio2"
    using reachable_step [OF 1, of "Guess CHR ''c'' 0"] by (simp add: trio_step2)
  show "reachable trio3"
    using reachable_step [OF 2, of "Guess CHR ''a'' 0"] by (simp add: trio_step3)
qed

lemma newAchievements_no_comeback: "Comeback \<notin> set (newAchievements gd c)"
  by (simp add: newAchievements_def Let_def)

text \<open>
  The reveal-letter effect has no test for a solved word: on "cat" with a
  reveal-letter starter, after \<open>c\<close> and \<open>a\<close> the power-up reveals the last position
  and the round goes on playing, with no result.
\<close>

lemma reveal_last_position_keeps_playing:
  "revealed (run [StartGame catF 1, Guess CHR ''c'' 0, Guess CHR ''a'' 0,
                  PowerUp RevealLetter] init) = [True, True, True]
   \<and> phase (run [StartGame catF 1, Guess CHR ''c'' 0, Guess CHR ''a'' 0,
                  PowerUp RevealLetter] init) = Play
   \<and> result (run [StartGame catF 1, Guess CHR ''c'' 0, Guess CHR ''a'' 0,
                   PowerUp RevealLetter] init) = None"
proof -
  have a: "step (Guess CHR ''a'' 0) catR1 =
      catR1\<lparr> revealed := [True, True, False], revealedRef := 3,
             guessed := [(CHR ''c'', Correct), (CHR ''a'', Correct)], score := 20 \<rparr>"
    by (simp add: evals cat0_def catR0_def catR1_def)
  have b: "step (PowerUp RevealLetter)
        (catR1\<lparr> revealed := [True, True, False], revealedRef := 3,
               guessed := [(CHR ''c'', Correct), (CHR ''a'', Correct)], score := 20 \<rparr>) =
      catR1\<lparr> revealed := [True, True, True], revealedRef := 4,
             guessed := [(CHR ''c'', Correct), (CHR ''a'', Correct)], score := 20,
             availablePowerUps := [], powerUpsUsed := 1, revealLetterUsed := 1,
             capPowerUpsUsed := 1, capRevealLetterUsed := 1 \<rparr>"
    by (simp add: evals cat0_def catR0_def catR1_def)
  show ?thesis
    by (simp add: cat_stepR0 cat_stepR1 a b del: One_nat_def)
       (simp add: cat0_def catR0_def catR1_def init_def)
qed

section \<open>The claims\<close>


text \<open>
  C1. In solo play a correct guess that does not solve the word adds 10 per matched
  position, and the claim multiplies this by 2 while double points is active. The code
  never reads \<^verbatim>\<open>scoreMultiplier\<close>: on "eel", with double points just activated (the
  multiplier cell is 2), the guess \<open>e\<close> matches two positions and the score goes from 0 to
  20, where the claim gives 40.
\<close>

theorem double_points_guess_scores_single:
  "scoreMultiplier (run [StartGame eelF 0, PowerUp DoublePoints] init) = 2
   \<and> phase (run [StartGame eelF 0, PowerUp DoublePoints] init) = Play
   \<and> mode (run [StartGame eelF 0, PowerUp DoublePoints] init) = Solo
   \<and> score (run [StartGame eelF 0, PowerUp DoublePoints] init) = 0
   \<and> length (matchIdx (word (run [StartGame eelF 0, PowerUp DoublePoints] init)) CHR ''e'') = 2
   \<and> score (run [StartGame eelF 0, PowerUp DoublePoints, Guess CHR ''e'' 0] init) = 20
   \<and> scoreMultiplier (run [StartGame eelF 0, PowerUp DoublePoints, Guess CHR ''e'' 0] init) = 2"
  by (simp add: eel_step0 eel_stepDP eel_stepDP1)
     (simp add: eelDP1_def eelDP_def eel0_def init_def matchIdx_def upt_rec)

text \<open>
  C2. The solo round on "cat", guessed \<open>c\<close>, \<open>a\<close>, \<open>t\<close> with 6 lives and multiplier 1:
  the claim gives a final score of 250. The code ends at 240 with \<open>perfectStreak = 1\<close>:
  the solving guess sets the score to the score before that guess plus the bonus,
  which drops the 10 points of the last letter.
\<close>

theorem solo_win_cat_scores_240:
  "score (run [StartGame catF 0, Guess CHR ''c'' 0, Guess CHR ''a'' 0] init) = 20
   \<and> lives (run [StartGame catF 0, Guess CHR ''c'' 0, Guess CHR ''a'' 0] init) = 6
   \<and> scoreMultiplier (run [StartGame catF 0, Guess CHR ''c'' 0, Guess CHR ''a'' 0] init) = 1
   \<and> result (run [StartGame catF 0, Guess CHR ''c'' 0, Guess CHR ''a'' 0,
                   Guess CHR ''t'' 0] init) = Some Win
   \<and> score (run [StartGame catF 0, Guess CHR ''c'' 0, Guess CHR ''a'' 0,
                  Guess CHR ''t'' 0] init) = 240
   \<and> perfectStreak (run [StartGame catF 0, Guess CHR ''c'' 0, Guess CHR ''a'' 0,
                          Guess CHR ''t'' 0] init) = 1"
  by (simp add: cat_step0 cat_step1 cat_step2 cat_step3)
     (simp add: cat3_def cat2_def cat1_def cat0_def init_def MAX_LIVES_def)

text \<open>
  C3, as stated, fails: a round on "a" lost by six wrong guesses has every position
  revealed (the loss reveals the word) and is not solved.
\<close>

theorem lost_round_revealed_not_solved:
  "everyBoolean (revealed (run [StartGame ayF 0, Guess CHR ''b'' 0, Guess CHR ''c'' 0,
      Guess CHR ''d'' 0, Guess CHR ''e'' 0, Guess CHR ''f'' 0, Guess CHR ''g'' 0] init))
   \<and> \<not> solved (run [StartGame ayF 0, Guess CHR ''b'' 0, Guess CHR ''c'' 0,
      Guess CHR ''d'' 0, Guess CHR ''e'' 0, Guess CHR ''f'' 0, Guess CHR ''g'' 0] init)"
proof -
  have "run [StartGame ayF 0, Guess CHR ''b'' 0, Guess CHR ''c'' 0,
      Guess CHR ''d'' 0, Guess CHR ''e'' 0, Guess CHR ''f'' 0, Guess CHR ''g'' 0] init = ayLost"
    using ay_run5 by (simp add: ay_stepLost)
  then show ?thesis
    by (simp add: ayLost_def ayFive_def ayMiss_def init_def solved_def everyBoolean_def)
qed

text \<open>
  C3, amended. In every reachable state a solved round has every position revealed;
  and a correct guess of a new letter in the playing phase leaves the round solved,
  in that same transition, exactly when it leaves every position revealed.
\<close>

theorem solved_after_correct_guess:
  assumes "reachable s"
  shows "(solved s \<longrightarrow> everyBoolean (revealed s))
       \<and> (phase s = Play \<and> toLowerCase raw \<notin> fst ` set (guessed s)
            \<and> matchIdx (word s) (toLowerCase raw) \<noteq> [] \<longrightarrow>
          (solved (step (Guess raw rnd) s)
             \<longleftrightarrow> everyBoolean (revealed (step (Guess raw rnd) s))))"
proof -
  have inv: "roundInv s" and st: "settled s" using assms(1) reachable_inv by blast+
  have rv: "revealed (step (Guess raw rnd) s) = revealed (onGuess rnd raw s)"
    using st by (rule step_guess_revealed)
  have a: "solved s \<longrightarrow> everyBoolean (revealed s)"
    using inv by (simp add: solved_def roundInv_def)
  have b: "solved (step (Guess raw rnd) s)
             \<longleftrightarrow> everyBoolean (revealed (step (Guess raw rnd) s))"
    if p: "phase s = Play" and fresh: "toLowerCase raw \<notin> fst ` set (guessed s)"
      and m: "matchIdx (word s) (toLowerCase raw) \<noteq> []"
  proof -
    have none: "map_of (guessed s) (toLowerCase raw) = None"
      using fresh by (simp add: map_of_eq_None_iff)
    have w: "word s \<noteq> []" using inv p by (auto simp add: roundInv_def)
    show ?thesis
      unfolding rv using p none w m
      by (cases "mode s") (simp_all add: solved_def step_def onGuess_def Let_def)
  qed
  show ?thesis using a b by blast
qed

text \<open>
  C3, amended, on "cat": after \<open>c\<close> and \<open>a\<close> the guess \<open>t\<close> reveals the last position
  and the round is solved at once; after \<open>c\<close> the guess \<open>a\<close> leaves a position hidden
  and the round unsolved.
\<close>

theorem solved_after_correct_guess_witness:
  "reachable cat2 \<and> phase cat2 = Play
   \<and> toLowerCase CHR ''t'' \<notin> fst ` set (guessed cat2)
   \<and> matchIdx (word cat2) (toLowerCase CHR ''t'') \<noteq> []
   \<and> everyBoolean (revealed (step (Guess CHR ''t'' 0) cat2))
   \<and> solved (step (Guess CHR ''t'' 0) cat2)
   \<and> reachable cat1 \<and> phase cat1 = Play
   \<and> toLowerCase CHR ''a'' \<notin> fst ` set (guessed cat1)
   \<and> matchIdx (word cat1) (toLowerCase CHR ''a'') \<noteq> []
   \<and> \<not> everyBoolean (revealed (step (Guess CHR ''a'' 0) cat1))
   \<and> \<not> solved (step (Guess CHR ''a'' 0) cat1)"
proof -
  have h2: "phase cat2 = Play \<and> toLowerCase CHR ''t'' \<notin> fst ` set (guessed cat2)
      \<and> matchIdx (word cat2) (toLowerCase CHR ''t'') \<noteq> []"
    by (simp add: cat2_def cat1_def cat0_def init_def toLowerCase_def matchIdx_def upt_rec)
  have h1: "phase cat1 = Play \<and> toLowerCase CHR ''a'' \<notin> fst ` set (guessed cat1)
      \<and> matchIdx (word cat1) (toLowerCase CHR ''a'') \<noteq> []"
    by (simp add: cat1_def cat0_def init_def toLowerCase_def matchIdx_def upt_rec)
  have r2: "everyBoolean (revealed (step (Guess CHR ''t'' 0) cat2))"
    by (simp add: cat_step3 cat3_def everyBoolean_def)
  have r1: "\<not> everyBoolean (revealed (step (Guess CHR ''a'' 0) cat1))"
    by (simp add: cat_step2 cat2_def everyBoolean_def)
  show ?thesis
    using solved_after_correct_guess [OF reachable_cat(3), of "CHR ''t''" 0]
      solved_after_correct_guess [OF reachable_cat(2), of "CHR ''a''" 0]
      h1 h2 r1 r2 reachable_cat(2,3)
    by blast
qed

text \<open>
  C4. On a solo round on "a", five wrong guesses bring the lives down to 1 and the
  guess \<open>a\<close> then wins: the claim unlocks \<^verbatim>\<open>comeback\<close>. The code unlocks \<^verbatim>\<open>firstWin\<close> and
  \<^verbatim>\<open>survivor\<close> only; \<^verbatim>\<open>checkAchievements\<close> has no branch for \<^verbatim>\<open>comeback\<close>.
\<close>

theorem comeback_not_unlocked:
  "lives (run [StartGame ayF 0, Guess CHR ''b'' 0, Guess CHR ''c'' 0, Guess CHR ''d'' 0,
      Guess CHR ''e'' 0, Guess CHR ''f'' 0] init) = 1
   \<and> result (run [StartGame ayF 0, Guess CHR ''b'' 0, Guess CHR ''c'' 0, Guess CHR ''d'' 0,
      Guess CHR ''e'' 0, Guess CHR ''f'' 0, Guess CHR ''a'' 0] init) = Some Win
   \<and> achievements (run [StartGame ayF 0, Guess CHR ''b'' 0, Guess CHR ''c'' 0,
      Guess CHR ''d'' 0, Guess CHR ''e'' 0, Guess CHR ''f'' 0, Guess CHR ''a'' 0] init)
       = [FirstWin, Survivor]
   \<and> showAchievement (run [StartGame ayF 0, Guess CHR ''b'' 0, Guess CHR ''c'' 0,
      Guess CHR ''d'' 0, Guess CHR ''e'' 0, Guess CHR ''f'' 0, Guess CHR ''a'' 0] init)
       = Some FirstWin"
proof -
  have "run [StartGame ayF 0, Guess CHR ''b'' 0, Guess CHR ''c'' 0, Guess CHR ''d'' 0,
      Guess CHR ''e'' 0, Guess CHR ''f'' 0, Guess CHR ''a'' 0] init = ayWon"
    using ay_run5 by (simp add: ay_stepWon)
  then show ?thesis
    using ay_run5 by (simp add: ayWon_def ayFive_def ayMiss_def init_def)
qed

text \<open>
  C5. Double points is activated once on "cat": it leaves \<^verbatim>\<open>availablePowerUps\<close> and
  both of its counters stand at 1. The claim counts an activation once. In the code
  the effect returns before it clears \<^verbatim>\<open>powerUp\<close>, so it runs again after the next
  guess: after the guess \<open>c\<close> both counters stand at 2.
\<close>

theorem double_points_counted_again:
  "availablePowerUps (run [StartGame catF 0] init) = [DoublePoints]
   \<and> availablePowerUps (run [StartGame catF 0, PowerUp DoublePoints] init) = []
   \<and> powerUpsUsed (run [StartGame catF 0, PowerUp DoublePoints] init) = 1
   \<and> doublePointsUsed (run [StartGame catF 0, PowerUp DoublePoints] init) = 1
   \<and> powerUp (run [StartGame catF 0, PowerUp DoublePoints] init) = Some DoublePoints
   \<and> powerUpsUsed (run [StartGame catF 0, PowerUp DoublePoints, Guess CHR ''c'' 0] init) = 2
   \<and> doublePointsUsed (run [StartGame catF 0, PowerUp DoublePoints, Guess CHR ''c'' 0] init) = 2"
  by (simp add: cat_step0 cat_stepDP cat_stepDP1)
     (simp add: catDP1_def catDP_def cat0_def init_def)

text \<open>
  C6, as stated, fails: after an extra life was used on "cat", Reset leaves the usage
  counter \<^verbatim>\<open>powerUpsUsed\<close> at 1, not at its initial 0.
\<close>

theorem reset_keeps_usage_counter:
  "powerUpsUsed init = 0
   \<and> phase (run [StartGame catF 2, PowerUp ExtraLife] init) = Play
   \<and> powerUpsUsed (run [StartGame catF 2, PowerUp ExtraLife] init) = 1
   \<and> phase (run [StartGame catF 2, PowerUp ExtraLife, Reset] init) = Setup
   \<and> powerUpsUsed (run [StartGame catF 2, PowerUp ExtraLife, Reset] init) = 1"
  by (simp add: cat_stepE0 cat_stepE1 cat_resetE)
     (simp add: step_def resetClick_def catE1_def catE0_def cat0_def init_def)

text \<open>
  C6, amended. From every reachable state outside setup, Reset leads to the setup
  phase with players, name inputs, word, meaning, display, mask, guessed letters,
  winner, result and turn index cleared, 6 lives, no available power-up, score 0 and
  streak 0. The unlocked achievements and the number of completed words are kept, and
  no usage counter decreases.
\<close>

theorem reset_returns_to_setup:
  assumes "reachable s" and "phase s \<noteq> Setup"
  shows "phase (step Reset s) = Setup \<and> players (step Reset s) = []
       \<and> nameInput (step Reset s) = [] \<and> soloName (step Reset s) = []
       \<and> word (step Reset s) = [] \<and> meaning (step Reset s) = []
       \<and> displayRaw (step Reset s) = [] \<and> revealed (step Reset s) = []
       \<and> guessed (step Reset s) = [] \<and> winner (step Reset s) = None
       \<and> result (step Reset s) = None \<and> currentIdx (step Reset s) = 0
       \<and> lives (step Reset s) = MAX_LIVES \<and> availablePowerUps (step Reset s) = []
       \<and> score (step Reset s) = 0 \<and> streak (step Reset s) = 0
       \<and> achievements (step Reset s) = achievements s
       \<and> wordsCompleted (step Reset s) = wordsCompleted s
       \<and> powerUpsUsed s \<le> powerUpsUsed (step Reset s)
       \<and> doublePointsUsed s \<le> doublePointsUsed (step Reset s)
       \<and> revealLetterUsed s \<le> revealLetterUsed (step Reset s)"
proof -
  have st: "settled s" using assms(1) reachable_inv by blast
  have eq: "step Reset s = settle s (resetClick s)" using assms(2) by (simp add: step_def)
  have pu: "powerUp (resetClick s) \<noteq> Some RevealLetter" "powerUp (resetClick s) \<noteq> Some ExtraLife"
    using st by (simp_all add: settled_def)
  have rv: "revealed (step Reset s) = []"
    unfolding eq using settle_revealed [OF pu(1)] by (simp add: resetClick_def)
  have lv: "lives (step Reset s) = MAX_LIVES"
    unfolding eq using settle_lives [OF pu(2)] by (simp add: resetClick_def)
  have cn: "powerUpsUsed s \<le> powerUpsUsed (step Reset s)
       \<and> doublePointsUsed s \<le> doublePointsUsed (step Reset s)
       \<and> revealLetterUsed s \<le> revealLetterUsed (step Reset s)"
    unfolding eq using settle_counters_mono [of "resetClick s" s] by (simp add: resetClick_def)
  have rest: "phase (step Reset s) = Setup \<and> players (step Reset s) = []
       \<and> nameInput (step Reset s) = [] \<and> soloName (step Reset s) = []
       \<and> word (step Reset s) = [] \<and> meaning (step Reset s) = []
       \<and> displayRaw (step Reset s) = []
       \<and> guessed (step Reset s) = [] \<and> winner (step Reset s) = None
       \<and> result (step Reset s) = None \<and> currentIdx (step Reset s) = 0
       \<and> availablePowerUps (step Reset s) = []
       \<and> score (step Reset s) = 0 \<and> streak (step Reset s) = 0
       \<and> achievements (step Reset s) = achievements s
       \<and> wordsCompleted (step Reset s) = wordsCompleted s"
    unfolding eq by (simp add: resetClick_def)
  show ?thesis using rv lv cn rest by simp
qed

text \<open>C6, amended, on the solved round on "cat" (score 240, streak 1).\<close>

theorem reset_returns_to_setup_witness:
  "reachable cat3 \<and> phase cat3 \<noteq> Setup \<and> score cat3 = 240 \<and> streak cat3 = 1
   \<and> phase (step Reset cat3) = Setup \<and> word (step Reset cat3) = []
   \<and> revealed (step Reset cat3) = [] \<and> guessed (step Reset cat3) = []
   \<and> result (step Reset cat3) = None \<and> lives (step Reset cat3) = 6
   \<and> availablePowerUps (step Reset cat3) = []
   \<and> score (step Reset cat3) = 0 \<and> streak (step Reset cat3) = 0
   \<and> achievements (step Reset cat3) = [FirstWin, PerfectGame, Speedster]
   \<and> wordsCompleted (step Reset cat3) = 1"
proof -
  have h: "phase cat3 \<noteq> Setup" by (simp add: cat3_def)
  show ?thesis
    using reset_returns_to_setup [OF reachable_cat(4) h] reachable_cat(4)
    by (simp add: cat3_def MAX_LIVES_def)
qed

text \<open>
  C7. In a reachable multiplayer state in the playing phase, a guess of a new letter
  with no match passes the turn to \<open>(currentIdx + 1) mod\<close> the number of players and
  play goes on; one with a match keeps the turn, and if it reveals the last position
  it makes the player at the turn index the winner and finishes the round. In a
  finished round a guess changes nothing, so the index stays.
\<close>

theorem multiplayer_turns:
  assumes "reachable s" and "mode s = Multi"
  shows "(phase s = Play \<and> toLowerCase raw \<notin> fst ` set (guessed s) \<longrightarrow>
            players (step (Guess raw rnd) s) = players s
          \<and> (matchIdx (word s) (toLowerCase raw) = [] \<longrightarrow>
                currentIdx (step (Guess raw rnd) s) = (currentIdx s + 1) mod length (players s)
              \<and> phase (step (Guess raw rnd) s) = Play)
          \<and> (matchIdx (word s) (toLowerCase raw) \<noteq> [] \<longrightarrow>
                currentIdx (step (Guess raw rnd) s) = currentIdx s
              \<and> (if everyBoolean (revealed (step (Guess raw rnd) s))
                  then winner (step (Guess raw rnd) s) = Some (players s ! currentIdx s)
                     \<and> phase (step (Guess raw rnd) s) = Finished
                  else phase (step (Guess raw rnd) s) = Play)))
       \<and> (phase s = Finished \<longrightarrow> step (Guess raw rnd) s = s)"
proof -
  have inv: "roundInv s" and st: "settled s" using assms(1) reachable_inv by blast+
  have rv: "revealed (step (Guess raw rnd) s) = revealed (onGuess rnd raw s)"
    using st by (rule step_guess_revealed)
  have fin: "phase s = Finished \<longrightarrow> step (Guess raw rnd) s = s"
    by (simp add: step_def onGuess_def)
  have play: "players (step (Guess raw rnd) s) = players s
          \<and> (matchIdx (word s) (toLowerCase raw) = [] \<longrightarrow>
                currentIdx (step (Guess raw rnd) s) = (currentIdx s + 1) mod length (players s)
              \<and> phase (step (Guess raw rnd) s) = Play)
          \<and> (matchIdx (word s) (toLowerCase raw) \<noteq> [] \<longrightarrow>
                currentIdx (step (Guess raw rnd) s) = currentIdx s
              \<and> (if everyBoolean (revealed (step (Guess raw rnd) s))
                  then winner (step (Guess raw rnd) s) = Some (players s ! currentIdx s)
                     \<and> phase (step (Guess raw rnd) s) = Finished
                  else phase (step (Guess raw rnd) s) = Play))"
    if p: "phase s = Play" and fresh: "toLowerCase raw \<notin> fst ` set (guessed s)"
  proof -
    have none: "map_of (guessed s) (toLowerCase raw) = None"
      using fresh by (simp add: map_of_eq_None_iff)
    have w: "word s \<noteq> []" and pl: "players s \<noteq> []" and ix: "currentIdx s < length (players s)"
      using inv p assms(2) by (auto simp add: roundInv_def)
    show ?thesis
      unfolding rv using p none w pl ix assms(2)
      by (simp add: step_def onGuess_def Let_def)
  qed
  show ?thesis using fin play by blast
qed

text \<open>
  C7 on three players and "cat": the first player's wrong \<open>x\<close> makes the index 1; the
  second player's correct \<open>c\<close> keeps it at 1; after \<open>a\<close>, the solving \<open>t\<close> makes the
  second player the winner.
\<close>

theorem multiplayer_turns_witness:
  "reachable trio0 \<and> mode trio0 = Multi \<and> phase trio0 = Play
   \<and> length (players trio0) = 3 \<and> currentIdx trio0 = 0
   \<and> toLowerCase CHR ''x'' \<notin> fst ` set (guessed trio0)
   \<and> matchIdx (word trio0) (toLowerCase CHR ''x'') = []
   \<and> currentIdx (step (Guess CHR ''x'' 0) trio0) = 1
   \<and> reachable trio1 \<and> mode trio1 = Multi \<and> phase trio1 = Play \<and> currentIdx trio1 = 1
   \<and> toLowerCase CHR ''c'' \<notin> fst ` set (guessed trio1)
   \<and> matchIdx (word trio1) (toLowerCase CHR ''c'') \<noteq> []
   \<and> currentIdx (step (Guess CHR ''c'' 0) trio1) = 1
   \<and> reachable trio3 \<and> mode trio3 = Multi \<and> phase trio3 = Play \<and> currentIdx trio3 = 1
   \<and> toLowerCase CHR ''t'' \<notin> fst ` set (guessed trio3)
   \<and> matchIdx (word trio3) (toLowerCase CHR ''t'') \<noteq> []
   \<and> everyBoolean (revealed (step (Guess CHR ''t'' 0) trio3))
   \<and> winner (step (Guess CHR ''t'' 0) trio3) = Some ''bob''
   \<and> phase (step (Guess CHR ''t'' 0) trio3) = Finished
   \<and> currentIdx (step (Guess CHR ''t'' 0) trio3) = 1"
proof -
  have h0: "mode trio0 = Multi \<and> phase trio0 = Play
      \<and> length (players trio0) = 3 \<and> currentIdx trio0 = 0
      \<and> toLowerCase CHR ''x'' \<notin> fst ` set (guessed trio0)
      \<and> matchIdx (word trio0) (toLowerCase CHR ''x'') = []"
    by (simp add: trio0_def lobby_def init_def toLowerCase_def matchIdx_def upt_rec)
  have h1: "mode trio1 = Multi \<and> phase trio1 = Play \<and> currentIdx trio1 = 1
      \<and> players trio1 = [''ann'', ''bob'', ''cy'']
      \<and> toLowerCase CHR ''c'' \<notin> fst ` set (guessed trio1)
      \<and> matchIdx (word trio1) (toLowerCase CHR ''c'') \<noteq> []"
    by (simp add: trio1_def trio0_def lobby_def init_def toLowerCase_def matchIdx_def upt_rec)
  have h3: "mode trio3 = Multi \<and> phase trio3 = Play \<and> currentIdx trio3 = 1
      \<and> players trio3 = [''ann'', ''bob'', ''cy'']
      \<and> toLowerCase CHR ''t'' \<notin> fst ` set (guessed trio3)
      \<and> matchIdx (word trio3) (toLowerCase CHR ''t'') \<noteq> []"
    by (simp add: trio3_def trio2_def trio1_def trio0_def lobby_def init_def toLowerCase_def
          matchIdx_def upt_rec)
  have r3: "everyBoolean (revealed (step (Guess CHR ''t'' 0) trio3))"
    by (simp add: trio_revealed4 everyBoolean_def)
  have m0: "mode trio0 = Multi" and m1: "mode trio1 = Multi" and m3: "mode trio3 = Multi"
    using h0 h1 h3 by simp_all
  show ?thesis
    using multiplayer_turns [OF reachable_trio(1) m0, of "CHR ''x''" 0]
      multiplayer_turns [OF reachable_trio(2) m1, of "CHR ''c''" 0]
      multiplayer_turns [OF reachable_trio(4) m3, of "CHR ''t''" 0]
      h0 h1 h3 r3 reachable_trio
    by simp
qed

text \<open>
  C8. Activating reveal letter, when no reveal is already pending (as in every
  reachable state), changes the mask at one position only, the lowest unrevealed one,
  which becomes revealed; if every position is revealed the mask stays as it is.
\<close>

theorem reveal_letter_lowest:
  assumes "powerUp s \<noteq> Some RevealLetter"
  shows "(everyBoolean (revealed s) \<longrightarrow>
            revealed (activate RevealLetter s) = revealed s)
       \<and> (\<not> everyBoolean (revealed s) \<longrightarrow>
            (\<exists>i<length (revealed s). \<not> revealed s ! i \<and> (\<forall>j<i. revealed s ! j)
               \<and> revealed (activate RevealLetter s) = (revealed s)[i := True]))"
proof -
  have rev: "revealed (activate RevealLetter s) =
      (case findIndexFalse (revealed s) of None \<Rightarrow> revealed s
       | Some i \<Rightarrow> (revealed s)[i := True])"
    unfolding activate_def
    using settle_activate_reveal [OF assms, of "handlePowerUp RevealLetter s"]
    by (simp split: option.splits)
  show ?thesis
  proof (cases "findIndexFalse (revealed s)")
    case None
    then have "everyBoolean (revealed s)" by (simp add: findIndexFalse_None)
    then show ?thesis using rev None by simp
  next
    case (Some i)
    then have "\<not> everyBoolean (revealed s)"
      using findIndexFalse_None [of "revealed s"] by simp
    then show ?thesis using rev Some findIndexFalse_Some [OF Some] by auto
  qed
qed

text \<open>
  C8 on "cat" with a reveal-letter starter: after the guess \<open>c\<close> the button's event
  reveals position 1 and leaves position 2 hidden; on a mask that is all revealed
  the activation changes nothing.
\<close>

theorem reveal_letter_lowest_witness:
  "powerUp catR1 \<noteq> Some RevealLetter \<and> revealed catR1 = [True, False, False]
   \<and> step (PowerUp RevealLetter) catR1 = activate RevealLetter catR1
   \<and> revealed (activate RevealLetter catR1) = [True, True, False]
   \<and> powerUp catR2 \<noteq> Some RevealLetter \<and> everyBoolean (revealed catR2)
   \<and> revealed (activate RevealLetter catR2) = revealed catR2"
proof -
  have h1: "powerUp catR1 \<noteq> Some RevealLetter" and r1: "revealed catR1 = [True, False, False]"
    and b1: "step (PowerUp RevealLetter) catR1 = activate RevealLetter catR1"
    by (simp_all add: catR1_def catR0_def cat0_def init_def step_def)
  have h2: "powerUp catR2 \<noteq> Some RevealLetter" and r2: "everyBoolean (revealed catR2)"
    by (simp_all add: catR2_def catR1_def catR0_def cat0_def init_def everyBoolean_def)
  have n1: "\<not> everyBoolean (revealed catR1)" by (simp add: r1 everyBoolean_def)
  obtain i where i: "i < length (revealed catR1)" "\<not> revealed catR1 ! i"
      "\<forall>j<i. revealed catR1 ! j"
    and upd: "revealed (activate RevealLetter catR1) = (revealed catR1)[i := True]"
    using reveal_letter_lowest [OF h1] n1 by blast
  have "i = 1"
  proof (rule ccontr)
    assume "i \<noteq> 1"
    then have "i = 0 \<or> i = 2" using i(1) by (simp add: r1) arith
    then show False
    proof
      assume "i = 0" then show False using i(2) by (simp add: r1)
    next
      assume "i = 2"
      then have "revealed catR1 ! 1" using i(3) by simp
      then show False by (simp add: r1)
    qed
  qed
  then have "revealed (activate RevealLetter catR1) = [True, True, False]"
    using upd by (simp add: r1)
  then show ?thesis using reveal_letter_lowest [OF h2] h1 h2 r1 r2 b1 by simp
qed

text \<open>
  C9. Guessing a letter that is already a key of \<^verbatim>\<open>guessed\<close> is a no-op: the event
  leaves the whole state, error message included, as it was.
\<close>

theorem repeated_guess_noop:
  assumes "toLowerCase raw \<in> fst ` set (guessed s)"
  shows "step (Guess raw rnd) s = s"
proof -
  have "map_of (guessed s) (toLowerCase raw) \<noteq> None"
    using assms by (simp add: map_of_eq_None_iff)
  then show ?thesis by (simp add: step_def onGuess_def Let_def)
qed

text \<open>C9 on "cat" after the guess \<open>c\<close>: guessing \<open>c\<close> again.\<close>

theorem repeated_guess_noop_witness:
  "toLowerCase CHR ''c'' \<in> fst ` set (guessed cat1) \<and> step (Guess CHR ''c'' 7) cat1 = cat1"
proof -
  have h: "toLowerCase CHR ''c'' \<in> fst ` set (guessed cat1)"
    by (simp add: cat1_def toLowerCase_def)
  show ?thesis using repeated_guess_noop [OF h, of 7] h by simp
qed

text \<open>
  C10. From a reachable state, no event other than a new word or the reset takes a
  revealed position back: a position that is revealed before the event is a position
  of the mask, and revealed, after it.
\<close>

theorem revealed_monotone:
  assumes "reachable s" and "\<not> replacesRound e"
    and "i < length (revealed s)" and "revealed s ! i"
  shows "i < length (revealed (step e s)) \<and> revealed (step e s) ! i"
proof -
  have inv: "roundInv s" using assms(1) reachable_inv by blast
  have keep: "i < length (revealed n) \<and> revealed n ! i
      \<Longrightarrow> i < length (revealed (settle s n)) \<and> revealed (settle s n) ! i" for n
    using settle_revealed_mono [of i n s] by blast
  show ?thesis
  proof (cases e)
    case (Guess raw rnd)
    have "i < length (revealed (onGuess rnd raw s)) \<and> revealed (onGuess rnd raw s) ! i"
      using inv assms(3,4) by (intro revealed_onGuess_mono) (simp_all add: roundInv_def)
    then show ?thesis using Guess keep by (simp add: step_def)
  next
    case (PowerUp type)
    have "i < length (revealed (handlePowerUp type s)) \<and> revealed (handlePowerUp type s) ! i"
      using assms(3,4) by simp
    then show ?thesis using PowerUp keep assms(3,4) by (simp add: step_def activate_def)
  next
    case (StartGame fr rnd)
    then show ?thesis using assms(2) by simp
  next
    case Reset
    then show ?thesis using assms(2) by simp
  next
    case (SetMode m)
    then show ?thesis using keep [of "s\<lparr>mode := m\<rparr>"] assms(3,4) by (simp add: step_def)
  next
    case (SetSource src)
    then show ?thesis using keep [of "s\<lparr>source := src\<rparr>"] assms(3,4) by (simp add: step_def)
  next
    case (TypeName n)
    then show ?thesis using keep [of "s\<lparr>nameInput := n\<rparr>"] assms(3,4) by (simp add: step_def)
  next
    case (TypeSoloName n)
    then show ?thesis using keep [of "s\<lparr>soloName := n\<rparr>"] assms(3,4) by (simp add: step_def)
  next
    case AddPlayer
    then show ?thesis using keep [of "addPlayer s"] assms(3,4)
      by (simp add: step_def addPlayer_def Let_def)
  next
    case (RemovePlayer idx)
    then show ?thesis using keep [of "removePlayer idx s"] assms(3,4)
      by (simp add: step_def removePlayer_def)
  next
    case MultiplierTimeout
    then show ?thesis
      using keep [of "s\<lparr>scoreMultiplier := 1, timerArmed := False\<rparr>"] assms(3,4)
      by (simp add: step_def)
  next
    case ToastTimeout
    then show ?thesis using keep [of "s\<lparr>showAchievement := None\<rparr>"] assms(3,4)
      by (simp add: step_def)
  qed
qed

text \<open>C10 on "cat" after the guess \<open>c\<close>: position 0 stays revealed under the guess \<open>a\<close>.\<close>

theorem revealed_monotone_witness:
  "reachable cat1 \<and> \<not> replacesRound (Guess CHR ''a'' 0)
   \<and> (0::nat) < length (revealed cat1) \<and> revealed cat1 ! 0
   \<and> 0 < length (revealed (step (Guess CHR ''a'' 0) cat1))
   \<and> revealed (step (Guess CHR ''a'' 0) cat1) ! 0"
proof -
  have h: "\<not> replacesRound (Guess CHR ''a'' 0)" "(0::nat) < length (revealed cat1)"
    "revealed cat1 ! 0"
    by (simp_all add: cat1_def)
  show ?thesis
    using revealed_monotone [OF reachable_cat(2) h] h reachable_cat(2) by simp
qed

end
